theory Spec2Isabelle
  imports Complex_Main "HOL-Library.Sublist"
begin

section \<open>FreshBasket: the storefront of \<open>app.py\<close> as a shallow embedding\<close>

text \<open>
  The program is a Flask application over a relational store. Every route handler is
  modelled as a function from the stored tables (and the browser session, where the
  handler reads it) to the new tables and the outcome shown to the user.

  \<^item> A table is the list of its rows, in the order the store returns them.
  \<^item> The column type \<open>Float\<close> is modelled by \<open>real\<close>: rounding is not modelled.
  \<^item> A nullable column that the handlers can leave empty is an \<open>option\<close>.
  \<^item> Timestamps and the password hash take part in no handler decision modelled here
    and are left out of the rows.
\<close>

subsection \<open>Rows and tables\<close>

record user =
  u_id :: nat
  u_username :: string
  u_email :: string
  u_is_admin :: bool

record product =
  p_id :: nat
  p_name :: string
  p_description :: "string option"
  p_category :: string
  p_price :: real
  p_stock :: "int option"
  p_image_url :: string
  p_is_available :: bool

record cart_item =
  ci_id :: nat
  ci_session_id :: string
  ci_product_id :: nat
  ci_quantity :: int

record order_item =
  oi_id :: nat
  oi_order_id :: nat
  oi_product_id :: nat
  oi_quantity :: int
  oi_price :: real

record order =
  o_id :: nat
  o_user_id :: nat
  o_total_amount :: real
  o_status :: string
  o_shipping_address :: string
  o_notes :: string

record db =
  users :: "user list"
  products :: "product list"
  cart_items :: "cart_item list"
  orders :: "order list"
  order_items :: "order_item list"

text \<open>
  The outcomes of a handler that are not successes. Each stands for one way the source
  leaves a handler early:
  \<^item> \<open>NotFound\<close>: \<open>get_or_404\<close> found no row;
  \<^item> \<open>InsufficientStock\<close>: flash \<open>Not enough stock available.\<close>;
  \<^item> \<open>EmptyCart\<close>: flash \<open>Your cart is empty.\<close>;
  \<^item> \<open>ValidationError\<close>: flash \<open>Shipping address is required.\<close> or \<open>Invalid status value.\<close>;
  \<^item> \<open>Forbidden\<close>: flash \<open>You do not have permission to ...\<close>;
  \<^item> \<open>Unauthenticated\<close>: the redirect to the login page;
  \<^item> \<open>SelfDemotionForbidden\<close>: flash \<open>You cannot change your own admin status.\<close>;
  \<^item> \<open>StorageFailure\<close>: an \<open>except Exception\<close> clause ran (rollback, flash \<open>Failed to ...\<close>);
  \<^item> \<open>ServerError\<close>: an exception left the handler (the 500 handler rolls back).
\<close>

datatype error =
  NotFound | InsufficientStock | EmptyCart | ValidationError | Forbidden |
  Unauthenticated | SelfDemotionForbidden | StorageFailure | ServerError

subsection \<open>Queries\<close>

text \<open>\<open>Model.query.get(k)\<close>: the row with primary key \<open>k\<close>, if any.\<close>

definition get_user :: "db \<Rightarrow> nat \<Rightarrow> user option" where
  "get_user d k = find (\<lambda>u. u_id u = k) (users d)"

definition get_product :: "db \<Rightarrow> nat \<Rightarrow> product option" where
  "get_product d k = find (\<lambda>p. p_id p = k) (products d)"

definition get_cart_item :: "db \<Rightarrow> nat \<Rightarrow> cart_item option" where
  "get_cart_item d k = find (\<lambda>c. ci_id c = k) (cart_items d)"

definition get_order :: "db \<Rightarrow> nat \<Rightarrow> order option" where
  "get_order d k = find (\<lambda>r. o_id r = k) (orders d)"

text \<open>
  The key the store gives a new row: larger than every key of the table
  (what an auto-incremented integer primary key does).
\<close>

definition next_id :: "nat list \<Rightarrow> nat" where
  "next_id ks = Suc (fold max ks 0)"

subsection \<open>The unit of work: pending changes, commit and rollback\<close>

text \<open>
  A handler works on a session of the store: \<open>working\<close> holds the tables with the
  handler's pending changes, \<open>committed\<close> what every later request will see.
  Only \<open>commit\<close> copies the pending changes over; \<open>rollback\<close> drops them.

  A store operation can raise. Which one does is a parameter of the handler:
  \<open>FailAt n\<close> makes the operation number \<open>n\<close> of the \<open>try\<close> block raise. The
  operations counted are the writes (inserts, deletes) and the commit; a read raises
  only where it finds no row and the source goes on to use the row.
\<close>

record unit_of_work =
  committed :: db
  working :: db

datatype fault = NoFault | FailAt nat

fun attempt :: "fault \<Rightarrow> fault option" where
  "attempt NoFault = Some NoFault"
| "attempt (FailAt 0) = None"
| "attempt (FailAt (Suc n)) = Some (FailAt n)"

definition open_session :: "db \<Rightarrow> unit_of_work" where
  "open_session d = \<lparr>committed = d, working = d\<rparr>"

definition commit :: "fault \<Rightarrow> unit_of_work \<Rightarrow> unit_of_work \<times> fault option" where
  "commit f s =
     (case attempt f of
        None \<Rightarrow> (s, None)
      | Some f' \<Rightarrow> (s\<lparr>committed := working s\<rparr>, Some f'))"

definition rollback :: "unit_of_work \<Rightarrow> unit_of_work" where
  "rollback s = s\<lparr>working := committed s\<rparr>"

text \<open>
  The shape shared by the handlers that change one table and commit:
  \<^verbatim>\<open>
  try:
      <change>; db.session.commit()
  except Exception as e:
      db.session.rollback()
  \<close>
\<close>

definition try_commit :: "fault \<Rightarrow> db \<Rightarrow> db \<Rightarrow> db \<times> (error + unit)" where
  "try_commit f d changed =
     (case commit f ((open_session d)\<lparr>working := changed\<rparr>) of
        (s, Some _) \<Rightarrow> (committed s, Inr ())
      | (s, None) \<Rightarrow> (committed (rollback s), Inl StorageFailure))"

subsection \<open>The browser session\<close>

record session =
  cart_session :: "string option"
  user_id :: "nat option"

text \<open>
  \<open>get_session_id\<close>: the cart token of the session, created on first use. The token
  \<open>os.urandom(16).hex()\<close> would draw is the parameter \<open>fresh\<close>.
\<close>

definition get_session_id :: "string \<Rightarrow> session \<Rightarrow> string \<times> session" where
  "get_session_id fresh s =
     (case cart_session s of
        None \<Rightarrow> (fresh, s\<lparr>cart_session := Some fresh\<rparr>)
      | Some t \<Rightarrow> (t, s))"

text \<open>\<open>current_user\<close>: the user row \<open>load_user\<close> finds for the logged-in id.\<close>

definition current_user :: "db \<Rightarrow> session \<Rightarrow> user option" where
  "current_user d s = (case user_id s of None \<Rightarrow> None | Some k \<Rightarrow> get_user d k)"

subsection \<open>Cart routes\<close>

text \<open>\<open>request.form.get('quantity', 1, type=int)\<close> followed by the clamp to at least 1.\<close>

definition form_quantity :: "int option \<Rightarrow> int" where
  "form_quantity q =
     (let quantity = (case q of None \<Rightarrow> 1 | Some v \<Rightarrow> v)
      in if quantity < 1 then 1 else quantity)"

definition set_quantity :: "nat \<Rightarrow> int \<Rightarrow> cart_item list \<Rightarrow> cart_item list" where
  "set_quantity k q rows = map (\<lambda>c. if ci_id c = k then c\<lparr>ci_quantity := q\<rparr> else c) rows"

text \<open>
  \<open>add_to_cart(product_id)\<close>. The stock test compares the requested quantity only;
  comparing an integer with an empty stock column raises \<open>TypeError\<close>.
\<close>

definition add_to_cart ::
  "fault \<Rightarrow> string \<Rightarrow> db \<Rightarrow> session \<Rightarrow> nat \<Rightarrow> int option \<Rightarrow> db \<times> session \<times> (error + unit)" where
  "add_to_cart f fresh d s product_id q =
     (case get_product d product_id of
        None \<Rightarrow> (d, s, Inl NotFound)
      | Some product \<Rightarrow>
          let quantity = form_quantity q in
          (case p_stock product of
             None \<Rightarrow> (d, s, Inl ServerError)
           | Some stock \<Rightarrow>
               if quantity > stock then (d, s, Inl InsufficientStock)
               else
                 let (session_id, s') = get_session_id fresh s;
                     cart_item = find (\<lambda>c. ci_session_id c = session_id \<and> ci_product_id c = product_id)
                                   (cart_items d);
                     changed =
                       (case cart_item of
                          Some c \<Rightarrow> d\<lparr>cart_items := set_quantity (ci_id c) (ci_quantity c + quantity) (cart_items d)\<rparr>
                        | None \<Rightarrow>
                            d\<lparr>cart_items := cart_items d @
                               [\<lparr>ci_id = next_id (map ci_id (cart_items d)), ci_session_id = session_id,
                                 ci_product_id = product_id, ci_quantity = quantity\<rparr>]\<rparr>);
                     (d', r) = try_commit f d changed
                 in (d', s', r)))"

text \<open>\<open>update_cart_item(cart_item_id)\<close>. The session is not read.\<close>

definition update_cart_item ::
  "fault \<Rightarrow> db \<Rightarrow> session \<Rightarrow> nat \<Rightarrow> int option \<Rightarrow> db \<times> (error + unit)" where
  "update_cart_item f d s cart_item_id q =
     (case get_cart_item d cart_item_id of
        None \<Rightarrow> (d, Inl NotFound)
      | Some cart_item \<Rightarrow>
          let quantity = form_quantity q in
          (case get_product d (ci_product_id cart_item) of
             None \<Rightarrow> (d, Inl ServerError)
           | Some product \<Rightarrow>
               (case p_stock product of
                  None \<Rightarrow> (d, Inl ServerError)
                | Some stock \<Rightarrow>
                    if quantity > stock then (d, Inl InsufficientStock)
                    else try_commit f d
                           (d\<lparr>cart_items := set_quantity cart_item_id quantity (cart_items d)\<rparr>))))"

text \<open>\<open>remove_from_cart(cart_item_id)\<close>. The session is not read.\<close>

definition remove_from_cart ::
  "fault \<Rightarrow> db \<Rightarrow> session \<Rightarrow> nat \<Rightarrow> db \<times> (error + unit)" where
  "remove_from_cart f d s cart_item_id =
     (case get_cart_item d cart_item_id of
        None \<Rightarrow> (d, Inl NotFound)
      | Some cart_item \<Rightarrow>
          (case get_product d (ci_product_id cart_item) of
             None \<Rightarrow> (d, Inl ServerError)
           | Some product \<Rightarrow>
               try_commit f d
                 (d\<lparr>cart_items := filter (\<lambda>c. ci_id c \<noteq> cart_item_id) (cart_items d)\<rparr>)))"

subsection \<open>Access control\<close>

text \<open>
  The decorators \<open>login_required\<close> and \<open>admin_required\<close>: each either lets the handler
  run for the current user or answers in its place.
\<close>

definition login_required :: "db \<Rightarrow> session \<Rightarrow> error + user" where
  "login_required d s =
     (case current_user d s of None \<Rightarrow> Inl Unauthenticated | Some u \<Rightarrow> Inr u)"

definition admin_required :: "db \<Rightarrow> session \<Rightarrow> error + user" where
  "admin_required d s =
     (case current_user d s of
        None \<Rightarrow> Inl Unauthenticated
      | Some u \<Rightarrow> if \<not> u_is_admin u then Inl Forbidden else Inr u)"

subsection \<open>Order routes\<close>

text \<open>Python's \<open>sum\<close>: the additions run from the left, starting at 0.\<close>

definition py_sum :: "real list \<Rightarrow> real" where
  "py_sum xs = foldl (+) 0 xs"

text \<open>
  \<open>CartItem.get_subtotal\<close>: \<open>self.product.price * self.quantity\<close>. Reading \<open>.price\<close>
  of a missing product raises (\<open>None\<close> here).
\<close>

definition ci_get_subtotal :: "db \<Rightarrow> cart_item \<Rightarrow> real option" where
  "ci_get_subtotal d c =
     (case get_product d (ci_product_id c) of
        None \<Rightarrow> None
      | Some p \<Rightarrow> Some (p_price p * real_of_int (ci_quantity c)))"

text \<open>\<open>[item.get_subtotal() for item in cart_items]\<close>, stopping at the first raise.\<close>

fun cart_subtotals :: "db \<Rightarrow> cart_item list \<Rightarrow> real list option" where
  "cart_subtotals d [] = Some []"
| "cart_subtotals d (c # cs) =
     (case ci_get_subtotal d c of
        None \<Rightarrow> None
      | Some x \<Rightarrow> (case cart_subtotals d cs of None \<Rightarrow> None | Some xs \<Rightarrow> Some (x # xs)))"

text \<open>\<open>OrderItem.get_subtotal\<close>, \<open>Order.items\<close> and \<open>Order.calculate_total\<close>.\<close>

definition oi_get_subtotal :: "order_item \<Rightarrow> real" where
  "oi_get_subtotal i = oi_price i * real_of_int (oi_quantity i)"

definition o_items :: "db \<Rightarrow> order \<Rightarrow> order_item list" where
  "o_items d r = filter (\<lambda>i. oi_order_id i = o_id r) (order_items d)"

definition calculate_total :: "db \<Rightarrow> order \<Rightarrow> real" where
  "calculate_total d r = py_sum (map oi_get_subtotal (o_items d r))"

text \<open>
  The loop that builds the order items (not yet stored, so without keys): product id,
  quantity and price of each cart item, in cart order.
\<close>

fun build_order_items :: "db \<Rightarrow> cart_item list \<Rightarrow> (nat \<times> int \<times> real) list option" where
  "build_order_items d [] = Some []"
| "build_order_items d (c # cs) =
     (case get_product d (ci_product_id c) of
        None \<Rightarrow> None
      | Some p \<Rightarrow>
          (case build_order_items d cs of
             None \<Rightarrow> None
           | Some is \<Rightarrow> Some ((ci_product_id c, ci_quantity c, p_price p) # is)))"

text \<open>
  \<open>db.session.add(order); db.session.flush()\<close>: the order row is inserted and gets its
  key, then each of its items is inserted with that key. Every insert can raise.
\<close>

fun insert_order_items ::
  "fault \<Rightarrow> unit_of_work \<Rightarrow> nat \<Rightarrow> (nat \<times> int \<times> real) list \<Rightarrow> unit_of_work \<times> fault option" where
  "insert_order_items f s oid [] = (s, Some f)"
| "insert_order_items f s oid ((pid, qty, price) # is) =
     (case attempt f of
        None \<Rightarrow> (s, None)
      | Some f' \<Rightarrow>
          insert_order_items f'
            (s\<lparr>working := (working s)\<lparr>order_items := order_items (working s) @
                [\<lparr>oi_id = next_id (map oi_id (order_items (working s))), oi_order_id = oid,
                  oi_product_id = pid, oi_quantity = qty, oi_price = price\<rparr>]\<rparr>\<rparr>)
            oid is)"

definition flush_order ::
  "fault \<Rightarrow> unit_of_work \<Rightarrow> nat \<Rightarrow> string \<Rightarrow> string \<Rightarrow> real \<Rightarrow> (nat \<times> int \<times> real) list
     \<Rightarrow> unit_of_work \<times> (fault \<times> nat) option" where
  "flush_order f s uid shipping_address notes total_amount items =
     (case attempt f of
        None \<Rightarrow> (s, None)
      | Some f1 \<Rightarrow>
          let oid = next_id (map o_id (orders (working s)));
              s1 = s\<lparr>working := (working s)\<lparr>orders := orders (working s) @
                     [\<lparr>o_id = oid, o_user_id = uid, o_total_amount = total_amount,
                       o_status = ''pending'', o_shipping_address = shipping_address,
                       o_notes = notes\<rparr>]\<rparr>\<rparr>
          in (case insert_order_items f1 s1 oid items of
                (s2, None) \<Rightarrow> (s2, None)
              | (s2, Some f2) \<Rightarrow> (s2, Some (f2, oid))))"

text \<open>The loop \<open>for item in cart_items: db.session.delete(item)\<close>; every delete can raise.\<close>

fun delete_cart_items ::
  "fault \<Rightarrow> unit_of_work \<Rightarrow> cart_item list \<Rightarrow> unit_of_work \<times> fault option" where
  "delete_cart_items f s [] = (s, Some f)"
| "delete_cart_items f s (c # cs) =
     (case attempt f of
        None \<Rightarrow> (s, None)
      | Some f' \<Rightarrow>
          delete_cart_items f'
            (s\<lparr>working := (working s)\<lparr>cart_items :=
                filter (\<lambda>x. ci_id x \<noteq> ci_id c) (cart_items (working s))\<rparr>\<rparr>)
            cs)"

text \<open>
  The body of the \<open>try\<close> block of \<open>checkout\<close>. The result is the unit of work as the
  block leaves it, and the new order's key, or \<open>None\<close> when the block raised.
\<close>

definition place_order ::
  "fault \<Rightarrow> unit_of_work \<Rightarrow> cart_item list \<Rightarrow> nat \<Rightarrow> string \<Rightarrow> string
     \<Rightarrow> unit_of_work \<times> nat option" where
  "place_order f s cart uid shipping_address notes =
     (case cart_subtotals (working s) cart of
        None \<Rightarrow> (s, None)
      | Some subtotals \<Rightarrow>
          let total_amount = py_sum subtotals in
          (case build_order_items (working s) cart of
             None \<Rightarrow> (s, None)
           | Some items \<Rightarrow>
               (case flush_order f s uid shipping_address notes total_amount items of
                  (s1, None) \<Rightarrow> (s1, None)
                | (s1, Some (f1, oid)) \<Rightarrow>
                    (case delete_cart_items f1 s1 cart of
                       (s2, None) \<Rightarrow> (s2, None)
                     | (s2, Some f2) \<Rightarrow>
                         (case commit f2 s2 of
                            (s3, None) \<Rightarrow> (s3, None)
                          | (s3, Some _) \<Rightarrow> (s3, Some oid))))))"

datatype checkout_request = Get | Post "string option" "string option"

datatype checkout_result = CheckoutPage "cart_item list" real | OrderPlaced nat

text \<open>
  \<open>checkout()\<close>, behind \<open>login_required\<close>. \<open>Post a n\<close> carries the form fields
  \<open>shipping_address\<close> and \<open>notes\<close> (\<open>None\<close>: the field is absent).
\<close>

definition checkout ::
  "fault \<Rightarrow> string \<Rightarrow> db \<Rightarrow> session \<Rightarrow> checkout_request
     \<Rightarrow> db \<times> session \<times> (error + checkout_result)" where
  "checkout f fresh d s req =
     (case login_required d s of
        Inl e \<Rightarrow> (d, s, Inl e)
      | Inr u \<Rightarrow>
          let (session_id, s') = get_session_id fresh s;
              cart = filter (\<lambda>c. ci_session_id c = session_id) (cart_items d)
          in if cart = [] then (d, s', Inl EmptyCart)
             else
               (case req of
                  Post shipping_address notes \<Rightarrow>
                    (case shipping_address of
                       None \<Rightarrow> (d, s', Inl ValidationError)
                     | Some a \<Rightarrow>
                         if a = [] then (d, s', Inl ValidationError)
                         else
                           (case place_order f (open_session d) cart (u_id u) a
                                   (case notes of None \<Rightarrow> [] | Some n \<Rightarrow> n) of
                              (w, Some oid) \<Rightarrow> (committed w, s', Inr (OrderPlaced oid))
                            | (w, None) \<Rightarrow> (committed (rollback w), s', Inl StorageFailure)))
                | Get \<Rightarrow>
                    (case cart_subtotals d cart of
                       None \<Rightarrow> (d, s', Inl ServerError)
                     | Some subtotals \<Rightarrow> (d, s', Inr (CheckoutPage cart (py_sum subtotals))))))"

text \<open>\<open>order_confirmation(order_id)\<close>, behind \<open>login_required\<close>.\<close>

definition order_confirmation :: "db \<Rightarrow> session \<Rightarrow> nat \<Rightarrow> error + order" where
  "order_confirmation d s order_id =
     (case login_required d s of
        Inl e \<Rightarrow> Inl e
      | Inr u \<Rightarrow>
          (case get_order d order_id of
             None \<Rightarrow> Inl NotFound
           | Some r \<Rightarrow> if o_user_id r \<noteq> u_id u then Inl Forbidden else Inr r))"

subsection \<open>Product routes\<close>

text \<open>
  \<open>Product.name.ilike(pattern)\<close> is sent to the store as \<open>lower(name) LIKE lower(pattern)\<close>.
  \<open>lower\<close> maps the letters A to Z to a to z. In a \<open>LIKE\<close> pattern \<open>%\<close> stands for any
  run of characters and \<open>_\<close> for any one character; every other character stands for
  itself (the store of the default configuration has no escape character).
\<close>

definition lower_char :: "char \<Rightarrow> char" where
  "lower_char c =
     (let n = (of_char c :: nat) in if 65 \<le> n \<and> n \<le> 90 then char_of (n + 32) else c)"

definition lower :: "string \<Rightarrow> string" where
  "lower s = map lower_char s"







subsection \<open>Admin routes\<close>

text \<open>\<open>admin_update_order_status(order_id)\<close>; \<open>new_status\<close> is the form field \<open>status\<close>.\<close>

definition admin_update_order_status ::
  "fault \<Rightarrow> db \<Rightarrow> session \<Rightarrow> nat \<Rightarrow> string option \<Rightarrow> db \<times> (error + unit)" where
  "admin_update_order_status f d s order_id new_status =
     (case login_required d s of
        Inl e \<Rightarrow> (d, Inl e)
      | Inr _ \<Rightarrow>
          (case admin_required d s of
             Inl e \<Rightarrow> (d, Inl e)
           | Inr _ \<Rightarrow>
               (case get_order d order_id of
                  None \<Rightarrow> (d, Inl NotFound)
                | Some r \<Rightarrow>
                    (case new_status of
                       None \<Rightarrow> (d, Inl ValidationError)
                     | Some st \<Rightarrow>
                         if st \<in> set [''pending'', ''processing'', ''shipped'', ''delivered'',
                                       ''cancelled'']
                         then try_commit f d
                                (d\<lparr>orders := map (\<lambda>x. if o_id x = order_id
                                                        then x\<lparr>o_status := st\<rparr> else x)
                                                 (orders d)\<rparr>)
                         else (d, Inl ValidationError)))))"

text \<open>\<open>admin_toggle_admin(user_id)\<close>; the argument \<open>target\<close> is the route's \<open>user_id\<close>.\<close>

definition admin_toggle_admin ::
  "fault \<Rightarrow> db \<Rightarrow> session \<Rightarrow> nat \<Rightarrow> db \<times> (error + unit)" where
  "admin_toggle_admin f d s target =
     (case login_required d s of
        Inl e \<Rightarrow> (d, Inl e)
      | Inr _ \<Rightarrow>
          (case admin_required d s of
             Inl e \<Rightarrow> (d, Inl e)
           | Inr cur \<Rightarrow>
               if target = u_id cur then (d, Inl SelfDemotionForbidden)
               else
                 (case get_user d target of
                    None \<Rightarrow> (d, Inl NotFound)
                  | Some u \<Rightarrow>
                      try_commit f d
                        (d\<lparr>users := map (\<lambda>x. if u_id x = target
                                               then x\<lparr>u_is_admin := \<not> u_is_admin u\<rparr> else x)
                                        (users d)\<rparr>))))"

text \<open>
  \<open>allowed_file(filename)\<close>: the text after the last dot, in lower case, is one of the
  allowed extensions.
\<close>

definition allowed_file :: "string \<Rightarrow> bool" where
  "allowed_file filename =
     (CHR ''.'' \<in> set filename \<and>
      lower (rev (takeWhile (\<lambda>c. c \<noteq> CHR ''.'') (rev filename)))
        \<in> set [''png'', ''jpg'', ''jpeg'', ''gif'', ''webp''])"

text \<open>Python's \<open>str.strip()\<close>: white space is removed at both ends.\<close>

definition is_space :: "char \<Rightarrow> bool" where
  "is_space c = (let n = (of_char c :: nat) in (9 \<le> n \<and> n \<le> 13) \<or> (28 \<le> n \<and> n \<le> 32))"

definition strip :: "string \<Rightarrow> string" where
  "strip s = rev (dropWhile is_space (rev (dropWhile is_space s)))"

text \<open>
  The form of \<open>admin_edit_product\<close>, each field as \<open>request.form.get\<close> returns it
  (\<open>None\<close>: absent, or not a number where a number is asked for), and the uploaded
  file: its name, the name it is stored under, and whether saving it succeeds.
\<close>

record product_form =
  f_name :: "string option"
  f_description :: "string option"
  f_category :: "string option"
  f_price :: "real option"
  f_stock :: "int option"
  f_is_available :: "string option"
  f_image_url :: "string option"

record upload =
  up_filename :: string
  up_stored_name :: string
  up_save_ok :: bool

datatype edit_request = EditGet | EditPost product_form "upload option"

text \<open>
  \<open>admin_edit_product(product_id)\<close>. The columns \<open>name\<close>, \<open>category\<close> and \<open>price\<close> are
  declared \<open>nullable=False\<close>: a commit that would store \<open>None\<close> in one of them raises.
\<close>

definition admin_edit_product ::
  "fault \<Rightarrow> db \<Rightarrow> session \<Rightarrow> nat \<Rightarrow> edit_request \<Rightarrow> db \<times> (error + unit)" where
  "admin_edit_product f d s product_id req =
     (case login_required d s of
        Inl e \<Rightarrow> (d, Inl e)
      | Inr _ \<Rightarrow>
          (case admin_required d s of
             Inl e \<Rightarrow> (d, Inl e)
           | Inr _ \<Rightarrow>
               (case get_product d product_id of
                  None \<Rightarrow> (d, Inl NotFound)
                | Some product \<Rightarrow>
                    (case req of
                       EditGet \<Rightarrow> (d, Inr ())
                     | EditPost form file \<Rightarrow>
                         let uploaded =
                               (case file of
                                  None \<Rightarrow> None
                                | Some up \<Rightarrow>
                                    if up_filename up \<noteq> [] \<and> allowed_file (up_filename up)
                                       \<and> up_save_ok up
                                    then Some (''/static/uploads/products/'' @ up_stored_name up)
                                    else None);
                             image_url =
                               (case uploaded of
                                  Some url \<Rightarrow> url
                                | None \<Rightarrow>
                                    (let url_input =
                                           strip (case f_image_url form of
                                                    None \<Rightarrow> []
                                                  | Some x \<Rightarrow> x)
                                     in if url_input \<noteq> [] then url_input
                                        else p_image_url product))
                         in (case (f_name form, f_category form, f_price form) of
                               (Some name, Some category, Some price) \<Rightarrow>
                                 try_commit f d
                                   (d\<lparr>products :=
                                        map (\<lambda>p. if p_id p = product_id
                                                  then p\<lparr>p_name := name,
                                                         p_description := f_description form,
                                                         p_category := category,
                                                         p_price := price,
                                                         p_stock := f_stock form,
                                                         p_is_available :=
                                                           (f_is_available form = Some ''on''),
                                                         p_image_url := image_url\<rparr>
                                                  else p)
                                            (products d)\<rparr>)
                             | _ \<Rightarrow> (d, Inl StorageFailure))))))"

text \<open>A run of edit requests, one after the other, whatever each one's outcome.\<close>

fun edit_products :: "db \<Rightarrow> (fault \<times> session \<times> nat \<times> edit_request) list \<Rightarrow> db" where
  "edit_products d [] = d"
| "edit_products d ((f, s, k, req) # es) = edit_products (fst (admin_edit_product f d s k req)) es"

subsection \<open>Properties of the stored tables used below\<close>

text \<open>The cart of a session token: \<open>CartItem.query.filter_by(session_id=token).all()\<close>.\<close>

definition cart_of :: "db \<Rightarrow> string \<Rightarrow> cart_item list" where
  "cart_of d t = filter (\<lambda>c. ci_session_id c = t) (cart_items d)"

text \<open>The foreign key \<open>order_items.order_id\<close>: every order item belongs to a stored order.\<close>

definition order_items_reference_orders :: "db \<Rightarrow> bool" where
  "order_items_reference_orders d =
     list_all (\<lambda>i. oi_order_id i \<in> set (map o_id (orders d))) (order_items d)"

text \<open>Every stored order has one of the five statuses.\<close>

definition statuses_valid :: "db \<Rightarrow> bool" where
  "statuses_valid d =
     list_all (\<lambda>r. o_status r \<in> set [''pending'', ''processing'', ''shipped'', ''delivered'',
                                       ''cancelled'']) (orders d)"

subsection \<open>A small shop, for the concrete checks\<close>

definition shop :: db where
  "shop = \<lparr>users =
       [\<lparr>u_id = 1, u_username = ''alice'', u_email = ''alice@example.com'', u_is_admin = False\<rparr>,
        \<lparr>u_id = 2, u_username = ''root'', u_email = ''root@example.com'', u_is_admin = True\<rparr>,
        \<lparr>u_id = 3, u_username = ''bob'', u_email = ''bob@example.com'', u_is_admin = False\<rparr>],
     products =
       [\<lparr>p_id = 1, p_name = ''Red Apples'',
         p_description = Some ''Fresh, crisp red apples from local orchards'',
         p_category = ''fruit'', p_price = 599 / 100, p_stock = Some 50,
         p_image_url = ''/static/images/apple.jpg'', p_is_available = True\<rparr>,
        \<lparr>p_id = 2, p_name = ''Bananas'',
         p_description = Some ''Golden yellow bananas, rich in potassium'',
         p_category = ''fruit'', p_price = 399 / 100, p_stock = Some 100,
         p_image_url = ''/static/images/banana.jpg'', p_is_available = True\<rparr>,
        \<lparr>p_id = 3, p_name = ''Carrots'',
         p_description = Some ''Organic carrots, sweet and crunchy'',
         p_category = ''vegetable'', p_price = 499 / 100, p_stock = Some 80,
         p_image_url = ''/static/images/carrot.jpg'', p_is_available = True\<rparr>],
     cart_items =
       [\<lparr>ci_id = 1, ci_session_id = ''t1'', ci_product_id = 1, ci_quantity = 2\<rparr>,
        \<lparr>ci_id = 2, ci_session_id = ''t1'', ci_product_id = 2, ci_quantity = 1\<rparr>,
        \<lparr>ci_id = 3, ci_session_id = ''t2'', ci_product_id = 3, ci_quantity = 4\<rparr>],
     orders =
       [\<lparr>o_id = 1, o_user_id = 3, o_total_amount = 998 / 100, o_status = ''shipped'',
         o_shipping_address = ''9 Mill Lane'', o_notes = []\<rparr>],
     order_items =
       [\<lparr>oi_id = 1, oi_order_id = 1, oi_product_id = 3, oi_quantity = 2, oi_price = 499 / 100\<rparr>]\<rparr>"

definition alice :: session where
  "alice = \<lparr>cart_session = Some ''t1'', user_id = Some 1\<rparr>"

definition admin :: session where
  "admin = \<lparr>cart_session = None, user_id = Some 2\<rparr>"

definition bob :: session where
  "bob = \<lparr>cart_session = Some ''t2'', user_id = Some 3\<rparr>"

text \<open>The edit form that raises the price of the carrots to 9.99.\<close>

definition carrots_dearer :: product_form where
  "carrots_dearer = \<lparr>f_name = Some ''Carrots'',
     f_description = Some ''Organic carrots, sweet and crunchy'',
     f_category = Some ''vegetable'', f_price = Some (999 / 100), f_stock = Some 80,
     f_is_available = Some ''on'', f_image_url = None\<rparr>"

section \<open>Proofs\<close>

subsection \<open>Keys, commits and lookups\<close>

lemma fold_max_ge: "(a::nat) \<le> fold max ks a"
proof (induction ks arbitrary: a)
  case Nil
  show ?case by simp
next
  case (Cons k ks)
  have "a \<le> max k a" by simp
  also have "\<dots> \<le> fold max ks (max k a)" by (rule Cons.IH)
  finally show ?case by simp
qed

lemma fold_max_mem: "k \<in> set ks \<Longrightarrow> (k::nat) \<le> fold max ks a"
proof (induction ks arbitrary: a)
  case Nil
  then show ?case by simp
next
  case (Cons x ks)
  show ?case
  proof (cases "k = x")
    case True
    have "k \<le> max x a" using True by simp
    also have "\<dots> \<le> fold max ks (max x a)" by (rule fold_max_ge)
    finally show ?thesis by simp
  next
    case False
    with Cons.prems have "k \<in> set ks" by simp
    then show ?thesis using Cons.IH by simp
  qed
qed

lemma next_id_fresh: "k \<in> set ks \<Longrightarrow> k < next_id ks"
  unfolding next_id_def using fold_max_mem [of k ks 0] by simp

lemma next_id_notin: "next_id ks \<notin> set ks"
  using next_id_fresh [of "next_id ks" ks] by auto

lemma try_commit_ok: "f \<noteq> FailAt 0 \<Longrightarrow> try_commit f d changed = (changed, Inr ())"
  by (cases f rule: attempt.cases) (simp_all add: try_commit_def commit_def open_session_def)

lemma try_commit_fails: "try_commit (FailAt 0) d changed = (d, Inl StorageFailure)"
  by (simp add: try_commit_def commit_def open_session_def rollback_def)

lemma try_commit_cases:
  "try_commit f d changed = (changed, Inr ()) \<or> try_commit f d changed = (d, Inl StorageFailure)"
  using try_commit_ok [of f d changed] try_commit_fails [of d changed] by (cases "f = FailAt 0") auto

lemma find_set_quantity:
  "find (\<lambda>c. ci_id c = k) (set_quantity k q rows) =
     map_option (\<lambda>c. c\<lparr>ci_quantity := q\<rparr>) (find (\<lambda>c. ci_id c = k) rows)"
  by (induction rows) (auto simp: set_quantity_def)

lemma form_quantity_clamp: "form_quantity q = max 1 (case q of None \<Rightarrow> 1 | Some v \<Rightarrow> v)"
  by (simp add: form_quantity_def Let_def max_def)

lemma find_snoc_fresh: "\<forall>y\<in>set xs. \<not> P y \<Longrightarrow> P x \<Longrightarrow> find P (xs @ [x]) = Some x"
  by (induction xs) auto

subsection \<open>Order placement is all or nothing\<close>

text \<open>No step of the \<open>try\<close> block but a successful commit touches the committed tables.\<close>

lemma insert_order_items_committed:
  "insert_order_items f s oid items = (s', r) \<Longrightarrow> committed s' = committed s"
proof (induction items arbitrary: f s)
  case Nil
  then show ?case by simp
next
  case (Cons i items)
  obtain pid qty price where i: "i = (pid, qty, price)" by (cases i)
  show ?case
  proof (cases "attempt f")
    case None
    with Cons.prems i show ?thesis by simp
  next
    case (Some f')
    with Cons.prems i Cons.IH show ?thesis by fastforce
  qed
qed

lemma delete_cart_items_committed:
  "delete_cart_items f s cs = (s', r) \<Longrightarrow> committed s' = committed s"
proof (induction cs arbitrary: f s)
  case Nil
  then show ?case by simp
next
  case (Cons c cs)
  show ?case
  proof (cases "attempt f")
    case None
    with Cons.prems show ?thesis by simp
  next
    case (Some f')
    with Cons.prems Cons.IH show ?thesis by fastforce
  qed
qed

lemma flush_order_committed:
  "flush_order f s uid a n t items = (s', r) \<Longrightarrow> committed s' = committed s"
  unfolding flush_order_def Let_def
  by (auto split: option.splits prod.splits dest!: insert_order_items_committed)

lemma commit_fails: "commit f s = (s', None) \<Longrightarrow> s' = s"
  by (auto simp: commit_def split: option.splits)

lemma place_order_fails_committed:
  "place_order f s cart uid a n = (s', None) \<Longrightarrow> committed s' = committed s"
  unfolding place_order_def Let_def
  by (auto split: option.splits prod.splits
      dest!: flush_order_committed delete_cart_items_committed commit_fails)

lemma checkout_failure_keeps_db:
  assumes "checkout f fresh d s req = (d', s', Inl e)"
  shows "d' = d"
  using assms
  unfolding checkout_def Let_def
  by (auto simp: rollback_def open_session_def split: sum.splits prod.splits if_splits
      checkout_request.splits option.splits dest!: place_order_fails_committed)






text \<open>
  When the fault strikes at the first delete, the pending tables already hold the new
  order and its items: that is the state the rollback discards.
\<close>

lemma place_order_partial_state:
  "length (orders (working (fst (place_order (FailAt 3) (open_session shop) (cart_of shop ''t1'')
       1 ''123 Main St'' [])))) = 2 \<and>
   length (order_items (working (fst (place_order (FailAt 3) (open_session shop)
       (cart_of shop ''t1'') 1 ''123 Main St'' [])))) = 3 \<and>
   committed (fst (place_order (FailAt 3) (open_session shop) (cart_of shop ''t1'')
       1 ''123 Main St'' [])) = shop"
  by code_simp



subsection \<open>The total of a new order\<close>

lemma insert_order_items_ok:
  "insert_order_items f s oid items = (s', Some f') \<Longrightarrow>
     \<exists>new. working s' = (working s)\<lparr>order_items := order_items (working s) @ new\<rparr> \<and>
           map (\<lambda>i. (oi_order_id i, oi_product_id i, oi_quantity i, oi_price i)) new =
           map (\<lambda>(p, q, pr). (oid, p, q, pr)) items"
proof (induction items arbitrary: f s)
  case Nil
  then show ?case by simp
next
  case (Cons i items)
  obtain pid qty price where i: "i = (pid, qty, price)" by (cases i)
  from Cons.prems i obtain f1 where f1: "attempt f = Some f1"
    by (cases "attempt f") auto
  define row where "row = \<lparr>oi_id = next_id (map oi_id (order_items (working s))), oi_order_id = oid,
                  oi_product_id = pid, oi_quantity = qty, oi_price = price\<rparr>"
  define s1 where "s1 = s\<lparr>working := (working s)\<lparr>order_items := order_items (working s) @ [row]\<rparr>\<rparr>"
  from Cons.prems i f1 have "insert_order_items f1 s1 oid items = (s', Some f')"
    by (simp add: s1_def row_def)
  from Cons.IH [OF this] obtain new where
    new: "working s' = (working s1)\<lparr>order_items := order_items (working s1) @ new\<rparr>"
      "map (\<lambda>i. (oi_order_id i, oi_product_id i, oi_quantity i, oi_price i)) new =
           map (\<lambda>(p, q, pr). (oid, p, q, pr)) items"
    by blast
  have "working s' = (working s)\<lparr>order_items := order_items (working s) @ (row # new)\<rparr>"
    using new(1) by (simp add: s1_def)
  moreover have "map (\<lambda>i. (oi_order_id i, oi_product_id i, oi_quantity i, oi_price i)) (row # new) =
           map (\<lambda>(p, q, pr). (oid, p, q, pr)) (i # items)"
    using new(2) i by (simp add: row_def)
  ultimately show ?case by blast
qed

lemma delete_cart_items_ok:
  "delete_cart_items f s cs = (s', r) \<Longrightarrow>
     \<exists>rows. working s' = (working s)\<lparr>cart_items := rows\<rparr>"
proof (induction cs arbitrary: f s)
  case Nil
  then have "working s' = (working s)\<lparr>cart_items := cart_items (working s)\<rparr>" by simp
  then show ?case by blast
next
  case (Cons c cs)
  show ?case
  proof (cases "attempt f")
    case None
    with Cons.prems have "working s' = (working s)\<lparr>cart_items := cart_items (working s)\<rparr>" by simp
    then show ?thesis by blast
  next
    case (Some f1)
    define s1 where "s1 = s\<lparr>working := (working s)\<lparr>cart_items :=
                filter (\<lambda>x. ci_id x \<noteq> ci_id c) (cart_items (working s))\<rparr>\<rparr>"
    from Cons.prems Some have "delete_cart_items f1 s1 cs = (s', r)" by (simp add: s1_def)
    from Cons.IH [OF this] obtain rows where "working s' = (working s1)\<lparr>cart_items := rows\<rparr>"
      by blast
    then have "working s' = (working s)\<lparr>cart_items := rows\<rparr>" by (simp add: s1_def)
    then show ?thesis by blast
  qed
qed

lemma commit_ok: "commit f s = (s', Some f') \<Longrightarrow> committed s' = working s"
  by (auto simp: commit_def split: option.splits)

lemma build_order_items_snapshot:
  "build_order_items d cart = Some items \<Longrightarrow>
     map (\<lambda>(p, q, pr). (p, q, Some pr)) items =
     map (\<lambda>c. (ci_product_id c, ci_quantity c, map_option p_price (get_product d (ci_product_id c)))) cart"
  by (induction cart arbitrary: items) (auto split: option.splits)

lemma cart_subtotals_build:
  "cart_subtotals d cart = Some subs \<Longrightarrow> build_order_items d cart = Some items \<Longrightarrow>
     subs = map (\<lambda>(p, q, pr). pr * real_of_int q) items"
  by (induction cart arbitrary: subs items) (auto simp: ci_get_subtotal_def split: option.splits)

lemma place_order_ok:
  assumes "place_order f s cart uid a n = (s', Some oid)"
  shows "\<exists>items new rows. cart_subtotals (working s) cart = Some (map (\<lambda>(p, q, pr). pr * real_of_int q) items) \<and>
     build_order_items (working s) cart = Some items \<and>
     oid = next_id (map o_id (orders (working s))) \<and>
     map (\<lambda>i. (oi_order_id i, oi_product_id i, oi_quantity i, oi_price i)) new =
           map (\<lambda>(p, q, pr). (oid, p, q, pr)) items \<and>
     committed s' = (working s)\<lparr>
        cart_items := rows,
        orders := orders (working s) @
                     [\<lparr>o_id = oid, o_user_id = uid,
                       o_total_amount = py_sum (map (\<lambda>(p, q, pr). pr * real_of_int q) items),
                       o_status = ''pending'', o_shipping_address = a, o_notes = n\<rparr>],
        order_items := order_items (working s) @ new\<rparr>"
proof -
  from assms obtain subs where subs: "cart_subtotals (working s) cart = Some subs"
    unfolding place_order_def by (auto split: option.splits)
  from assms subs obtain items where items: "build_order_items (working s) cart = Some items"
    unfolding place_order_def by (auto split: option.splits)
  have subs_eq: "subs = map (\<lambda>(p, q, pr). pr * real_of_int q) items"
    by (rule cart_subtotals_build [OF subs items])
  from assms subs items obtain s1 f1 where
    fl: "flush_order f s uid a n (py_sum subs) items = (s1, Some (f1, oid))"
    unfolding place_order_def Let_def by (auto split: option.splits prod.splits)
  from assms subs items fl obtain s2 f2 where
    del: "delete_cart_items f1 s1 cart = (s2, Some f2)"
    unfolding place_order_def Let_def by (auto split: option.splits prod.splits)
  from assms subs items fl del obtain f3 where
    com: "commit f2 s2 = (s', Some f3)"
    unfolding place_order_def Let_def by (auto split: option.splits prod.splits)
  define w0 where "w0 = (working s)\<lparr>orders := orders (working s) @
                     [\<lparr>o_id = oid, o_user_id = uid, o_total_amount = py_sum subs,
                       o_status = ''pending'', o_shipping_address = a, o_notes = n\<rparr>]\<rparr>"
  from fl obtain f0 where
    oid: "oid = next_id (map o_id (orders (working s)))" and
    ins: "insert_order_items f0 (s\<lparr>working := w0\<rparr>) oid items = (s1, Some f1)"
    unfolding flush_order_def Let_def w0_def by (auto split: option.splits prod.splits)
  from insert_order_items_ok [OF ins] obtain new where
    new: "working s1 = w0\<lparr>order_items := order_items w0 @ new\<rparr>"
      "map (\<lambda>i. (oi_order_id i, oi_product_id i, oi_quantity i, oi_price i)) new =
           map (\<lambda>(p, q, pr). (oid, p, q, pr)) items"
    by auto
  from delete_cart_items_ok [OF del] obtain rows where
    rows: "working s2 = (working s1)\<lparr>cart_items := rows\<rparr>" by blast
  have "committed s' = working s2" by (rule commit_ok [OF com])
  with rows new(1) have "committed s' = (working s)\<lparr>
        cart_items := rows,
        orders := orders (working s) @
                     [\<lparr>o_id = oid, o_user_id = uid,
                       o_total_amount = py_sum (map (\<lambda>(p, q, pr). pr * real_of_int q) items),
                       o_status = ''pending'', o_shipping_address = a, o_notes = n\<rparr>],
        order_items := order_items (working s) @ new\<rparr>"
    by (simp add: w0_def subs_eq)
  with subs items subs_eq oid new(2) show ?thesis by blast
qed

lemma stored_rows_proj:
  assumes "map (\<lambda>i. (oi_order_id i, oi_product_id i, oi_quantity i, oi_price i)) new =
           map (\<lambda>(p, q, pr). (oid, p, q, pr)) items"
  shows "map (\<lambda>i. F (oi_order_id i, oi_product_id i, oi_quantity i, oi_price i)) new =
         map (\<lambda>(p, q, pr). F (oid, p, q, pr)) items"
proof -
  have "map F (map (\<lambda>i. (oi_order_id i, oi_product_id i, oi_quantity i, oi_price i)) new) =
        map F (map (\<lambda>(p, q, pr). (oid, p, q, pr)) items)"
    using assms by simp
  then show ?thesis by (simp add: comp_def case_prod_unfold)
qed

lemma stored_rows_order_id:
  assumes "map (\<lambda>i. (oi_order_id i, oi_product_id i, oi_quantity i, oi_price i)) new =
           map (\<lambda>(p, q, pr). (oid, p, q, pr)) items"
  shows "\<forall>i\<in>set new. oi_order_id i = oid"
proof -
  have "map oi_order_id new = map (\<lambda>x. oid) items"
    using stored_rows_proj [OF assms, of fst] by (simp add: case_prod_unfold)
  then have "set (map oi_order_id new) \<subseteq> {oid}" by auto
  then show ?thesis by auto
qed

lemma checkout_placed:
  assumes "checkout f fresh d s req = (d', s', Inr (OrderPlaced oid))"
  shows "\<exists>(u::user) a n w.
           place_order f (open_session d) (cart_of d (fst (get_session_id fresh s))) (u_id u) a n
             = (w, Some oid) \<and> d' = committed w"
  using assms unfolding checkout_def Let_def cart_of_def
  by (auto split: sum.splits prod.splits if_splits checkout_request.splits option.splits)

text \<open>The foreign key assumed below is kept by \<open>checkout\<close> itself.\<close>

lemma place_order_keeps_references:
  assumes po: "place_order f s cart uid a n = (s', Some oid)"
    and fk: "order_items_reference_orders (working s)"
  shows "order_items_reference_orders (committed s')"
proof -
  from place_order_ok [OF po] obtain items new rows where
    new: "map (\<lambda>i. (oi_order_id i, oi_product_id i, oi_quantity i, oi_price i)) new =
           map (\<lambda>(p, q, pr). (oid, p, q, pr)) items" and
    com: "committed s' = (working s)\<lparr>
        cart_items := rows,
        orders := orders (working s) @
                     [\<lparr>o_id = oid, o_user_id = uid,
                       o_total_amount = py_sum (map (\<lambda>(p, q, pr). pr * real_of_int q) items),
                       o_status = ''pending'', o_shipping_address = a, o_notes = n\<rparr>],
        order_items := order_items (working s) @ new\<rparr>"
    by auto
  have n: "\<forall>i\<in>set new. oi_order_id i = oid" by (rule stored_rows_order_id [OF new])
  show ?thesis
    using fk n unfolding order_items_reference_orders_def com
    by (auto simp: list_all_iff)
qed

lemma checkout_keeps_references:
  assumes "order_items_reference_orders d"
  shows "order_items_reference_orders (fst (checkout f fresh d s req))"
proof -
  obtain d' s' out where c: "checkout f fresh d s req = (d', s', out)"
    by (cases "checkout f fresh d s req")
  show ?thesis
  proof (cases out)
    case (Inl e)
    with c have "d' = d" by (simp add: checkout_failure_keeps_db)
    with c assms show ?thesis by simp
  next
    case (Inr res)
    show ?thesis
    proof (cases res)
      case (CheckoutPage items tot)
      with c Inr have "d' = d"
        unfolding checkout_def Let_def
        by (auto split: sum.splits prod.splits if_splits checkout_request.splits option.splits)
      with c assms show ?thesis by simp
    next
      case (OrderPlaced oid)
      with c Inr have "checkout f fresh d s req = (d', s', Inr (OrderPlaced oid))" by simp
      from checkout_placed [OF this] obtain u :: user and a n w where
        po: "place_order f (open_session d) (cart_of d (fst (get_session_id fresh s))) (u_id u) a n
             = (w, Some oid)" and d': "d' = committed w"
        by blast
      from assms have "order_items_reference_orders (working (open_session d))"
        by (simp add: open_session_def)
      from place_order_keeps_references [OF po this] c d' show ?thesis by simp
    qed
  qed
qed

text \<open>
  C2. After a successful \<open>checkout\<close> the new order's \<open>total_amount\<close> is what
  \<open>Order.calculate_total\<close> computes from its order items (the sum of price times
  quantity), and these items carry, in cart order, the product id and quantity of each
  cart item and the price its product had when the order was placed. The stored tables
  are assumed to respect the foreign key of \<open>order_items.order_id\<close>.
\<close>

theorem checkout_total_amount:
  assumes ok: "checkout f fresh d s req = (d', s', Inr (OrderPlaced oid))"
    and fk: "order_items_reference_orders d"
  shows "\<exists>r. get_order d' oid = Some r \<and>
           o_total_amount r = calculate_total d' r \<and>
           map (\<lambda>i. (oi_product_id i, oi_quantity i, Some (oi_price i))) (o_items d' r) =
           map (\<lambda>c. (ci_product_id c, ci_quantity c,
                      map_option p_price (get_product d (ci_product_id c))))
               (cart_of d (fst (get_session_id fresh s)))"
proof -
  define cart where "cart = cart_of d (fst (get_session_id fresh s))"
  from checkout_placed [OF ok] obtain u :: user and a n w where
    po: "place_order f (open_session d) cart (u_id u) a n = (w, Some oid)" and
    d': "d' = committed w"
    unfolding cart_def by blast
  from place_order_ok [OF po] obtain items new rows where
    build: "build_order_items d cart = Some items" and
    oid: "oid = next_id (map o_id (orders d))" and
    new: "map (\<lambda>i. (oi_order_id i, oi_product_id i, oi_quantity i, oi_price i)) new =
           map (\<lambda>(p, q, pr). (oid, p, q, pr)) items" and
    com: "committed w = d\<lparr>
        cart_items := rows,
        orders := orders d @
                     [\<lparr>o_id = oid, o_user_id = u_id u,
                       o_total_amount = py_sum (map (\<lambda>(p, q, pr). pr * real_of_int q) items),
                       o_status = ''pending'', o_shipping_address = a, o_notes = n\<rparr>],
        order_items := order_items d @ new\<rparr>"
    by (auto simp: open_session_def)
  define r where "r = \<lparr>o_id = oid, o_user_id = u_id u,
                       o_total_amount = py_sum (map (\<lambda>(p, q, pr). pr * real_of_int q) items),
                       o_status = ''pending'', o_shipping_address = a, o_notes = n\<rparr>"
  have fresh_oid: "\<forall>y\<in>set (orders d). o_id y \<noteq> oid"
  proof
    fix y assume "y \<in> set (orders d)"
    then have "o_id y \<in> set (map o_id (orders d))" by simp
    then have "o_id y < oid" unfolding oid by (rule next_id_fresh)
    then show "o_id y \<noteq> oid" by simp
  qed
  have got: "get_order d' oid = Some r"
    unfolding get_order_def d' com r_def
    using fresh_oid by (simp add: find_snoc_fresh)
  have old: "filter (\<lambda>i. oi_order_id i = oid) (order_items d) = []"
  proof -
    have "oi_order_id i \<noteq> oid" if "i \<in> set (order_items d)" for i
    proof -
      from fk that have "oi_order_id i \<in> set (map o_id (orders d))"
        unfolding order_items_reference_orders_def by (simp add: list_all_iff)
      then obtain y where "y \<in> set (orders d)" "o_id y = oi_order_id i" by auto
      with fresh_oid show ?thesis by auto
    qed
    then show ?thesis by (simp add: filter_empty_conv)
  qed
  have new_all: "filter (\<lambda>i. oi_order_id i = oid) new = new"
    using stored_rows_order_id [OF new] by (simp add: filter_id_conv)
  have its: "o_items d' r = new"
    unfolding o_items_def d' com using old new_all by (simp add: r_def)
  have "map oi_get_subtotal new = map (\<lambda>(p, q, pr). pr * real_of_int q) items"
    using stored_rows_proj [OF new, of "\<lambda>(k, p, q, pr). pr * real_of_int q"]
    by (simp add: oi_get_subtotal_def [abs_def])
  then have total: "o_total_amount r = calculate_total d' r"
    unfolding calculate_total_def its by (simp add: r_def)
  have "map (\<lambda>i. (oi_product_id i, oi_quantity i, Some (oi_price i))) new =
        map (\<lambda>(p, q, pr). (p, q, Some pr)) items"
    using stored_rows_proj [OF new, of "\<lambda>(k, p, q, pr). (p, q, Some pr)"] by simp
  also have "\<dots> = map (\<lambda>c. (ci_product_id c, ci_quantity c,
                      map_option p_price (get_product d (ci_product_id c)))) cart"
    by (rule build_order_items_snapshot [OF build])
  finally have snap: "map (\<lambda>i. (oi_product_id i, oi_quantity i, Some (oi_price i))) (o_items d' r) =
           map (\<lambda>c. (ci_product_id c, ci_quantity c,
                      map_option p_price (get_product d (ci_product_id c)))) cart"
    unfolding its .
  from got total snap show ?thesis unfolding cart_def by blast
qed

theorem checkout_total_amount_witness:
  "snd (snd (checkout NoFault ''f'' shop alice (Post (Some ''123 Main St'') None)))
     = Inr (OrderPlaced 2) \<and>
   (\<exists>r. get_order (fst (checkout NoFault ''f'' shop alice (Post (Some ''123 Main St'') None))) 2
          = Some r \<and>
        o_total_amount r = 1597 / 100 \<and>
        calculate_total (fst (checkout NoFault ''f'' shop alice (Post (Some ''123 Main St'') None))) r
          = 1597 / 100)"
proof -
  define r where "r = checkout NoFault ''f'' shop alice (Post (Some ''123 Main St'') None)"
  have out: "snd (snd r) = Inr (OrderPlaced 2)" unfolding r_def by code_simp
  then have h: "checkout NoFault ''f'' shop alice (Post (Some ''123 Main St'') None) =
           (fst r, fst (snd r), Inr (OrderPlaced 2))"
    unfolding r_def by (simp add: prod_eq_iff)
  have fk: "order_items_reference_orders shop" by code_simp
  have tot: "map_option o_total_amount (get_order (fst r) 2) = Some (1597 / 100)"
    unfolding r_def by code_simp
  from checkout_total_amount [OF h fk] obtain x where
    x: "get_order (fst r) 2 = Some x" "o_total_amount x = calculate_total (fst r) x"
    by blast
  from tot x have "o_total_amount x = 1597 / 100" by simp
  with x have "\<exists>x. get_order (fst r) 2 = Some x \<and> o_total_amount x = 1597 / 100 \<and>
                  calculate_total (fst r) x = 1597 / 100"
    by simp
  with out show ?thesis unfolding r_def by simp
qed

subsection \<open>Updating a cart item\<close>

text \<open>
  C5. \<open>update_cart_item\<close>: with no cart item of that id the outcome is \<open>NotFound\<close>.
  Otherwise the quantity is clamped to at least 1 (1 when the field is absent); when it
  exceeds the stock of the item's product the outcome is \<open>InsufficientStock\<close> and the
  tables are unchanged; when it does not, and the commit goes through, the item's
  quantity becomes the clamped quantity. Whenever the call succeeds the stored
  quantity is the clamped quantity.
\<close>

theorem update_cart_item_contract:
  "(get_cart_item d k = None \<longrightarrow> update_cart_item f d s k q = (d, Inl NotFound)) \<and>
   (\<forall>c p stock. get_cart_item d k = Some c \<and> get_product d (ci_product_id c) = Some p \<and>
        p_stock p = Some stock \<longrightarrow>
        (stock < max 1 (case q of None \<Rightarrow> 1 | Some v \<Rightarrow> v) \<longrightarrow>
           update_cart_item f d s k q = (d, Inl InsufficientStock)) \<and>
        (max 1 (case q of None \<Rightarrow> 1 | Some v \<Rightarrow> v) \<le> stock \<and> f \<noteq> FailAt 0 \<longrightarrow>
           (\<exists>d'. update_cart_item f d s k q = (d', Inr ()) \<and>
                 get_cart_item d' k =
                   Some (c\<lparr>ci_quantity := max 1 (case q of None \<Rightarrow> 1 | Some v \<Rightarrow> v)\<rparr>)))) \<and>
   (\<forall>d'. update_cart_item f d s k q = (d', Inr ()) \<longrightarrow>
        map_option ci_quantity (get_cart_item d' k) =
          Some (max 1 (case q of None \<Rightarrow> 1 | Some v \<Rightarrow> v)))"
proof (intro conjI allI impI)
  assume "get_cart_item d k = None"
  then show "update_cart_item f d s k q = (d, Inl NotFound)"
    by (simp add: update_cart_item_def)
next
  fix c p stock
  assume h: "get_cart_item d k = Some c \<and> get_product d (ci_product_id c) = Some p \<and>
        p_stock p = Some stock"
  assume "stock < max 1 (case q of None \<Rightarrow> 1 | Some v \<Rightarrow> v)"
  with h show "update_cart_item f d s k q = (d, Inl InsufficientStock)"
    by (simp add: update_cart_item_def form_quantity_clamp)
next
  fix c p stock
  assume h: "get_cart_item d k = Some c \<and> get_product d (ci_product_id c) = Some p \<and>
        p_stock p = Some stock"
  assume ok: "max 1 (case q of None \<Rightarrow> 1 | Some v \<Rightarrow> v) \<le> stock \<and> f \<noteq> FailAt 0"
  define d1 where "d1 = d\<lparr>cart_items := set_quantity k (form_quantity q) (cart_items d)\<rparr>"
  from h ok have "update_cart_item f d s k q = (d1, Inr ())"
    by (simp add: update_cart_item_def form_quantity_clamp [symmetric] try_commit_ok d1_def)
  moreover from h have "get_cart_item d1 k = Some (c\<lparr>ci_quantity := form_quantity q\<rparr>)"
    by (simp add: get_cart_item_def d1_def find_set_quantity)
  ultimately show "\<exists>d'. update_cart_item f d s k q = (d', Inr ()) \<and>
                 get_cart_item d' k =
                   Some (c\<lparr>ci_quantity := max 1 (case q of None \<Rightarrow> 1 | Some v \<Rightarrow> v)\<rparr>)"
    by (simp add: form_quantity_clamp)
next
  fix d'
  assume ok: "update_cart_item f d s k q = (d', Inr ())"
  then obtain c where c: "get_cart_item d k = Some c"
    by (cases "get_cart_item d k") (auto simp: update_cart_item_def)
  from ok c have "try_commit f d (d\<lparr>cart_items := set_quantity k (form_quantity q) (cart_items d)\<rparr>)
       = (d', Inr ())"
    by (auto simp: update_cart_item_def Let_def split: option.splits if_splits)
  with try_commit_cases [of f d "d\<lparr>cart_items := set_quantity k (form_quantity q) (cart_items d)\<rparr>"]
  have "d' = d\<lparr>cart_items := set_quantity k (form_quantity q) (cart_items d)\<rparr>" by auto
  with c show "map_option ci_quantity (get_cart_item d' k) =
          Some (max 1 (case q of None \<Rightarrow> 1 | Some v \<Rightarrow> v))"
    by (simp add: get_cart_item_def find_set_quantity form_quantity_clamp)
qed

theorem update_cart_item_contract_witness:
  "update_cart_item NoFault shop alice 99 (Some 1) = (shop, Inl NotFound) \<and>
   update_cart_item NoFault shop bob 3 (Some 81) = (shop, Inl InsufficientStock) \<and>
   map_option ci_quantity (get_cart_item (fst (update_cart_item NoFault shop bob 3 (Some 0))) 3)
     = Some 1"
proof -
  have a: "get_cart_item shop 99 = None" by code_simp
  have b: "get_cart_item shop 3 =
             Some \<lparr>ci_id = 3, ci_session_id = ''t2'', ci_product_id = 3, ci_quantity = 4\<rparr> \<and>
           get_product shop
             (ci_product_id \<lparr>ci_id = 3, ci_session_id = ''t2'', ci_product_id = 3, ci_quantity = 4\<rparr>)
             = Some \<lparr>p_id = 3, p_name = ''Carrots'',
                 p_description = Some ''Organic carrots, sweet and crunchy'',
                 p_category = ''vegetable'', p_price = 499 / 100, p_stock = Some 80,
                 p_image_url = ''/static/images/carrot.jpg'', p_is_available = True\<rparr> \<and>
           p_stock \<lparr>p_id = 3, p_name = ''Carrots'',
                 p_description = Some ''Organic carrots, sweet and crunchy'',
                 p_category = ''vegetable'', p_price = 499 / 100, p_stock = Some 80,
                 p_image_url = ''/static/images/carrot.jpg'', p_is_available = True\<rparr> = Some 80"
    by code_simp
  have c: "update_cart_item NoFault shop bob 3 (Some 0) =
             (fst (update_cart_item NoFault shop bob 3 (Some 0)), Inr ())"
    by code_simp
  from update_cart_item_contract [of shop 99 NoFault alice "Some 1"] a
  have 1: "update_cart_item NoFault shop alice 99 (Some 1) = (shop, Inl NotFound)" by blast
  from update_cart_item_contract [of shop 3 NoFault bob "Some 81"] b
  have 2: "update_cart_item NoFault shop bob 3 (Some 81) = (shop, Inl InsufficientStock)"
    by simp
  from update_cart_item_contract [of shop 3 NoFault bob "Some 0"] c
  have 3: "map_option ci_quantity (get_cart_item (fst (update_cart_item NoFault shop bob 3 (Some 0))) 3)
             = Some 1"
    by simp
  from 1 2 3 show ?thesis by simp
qed

subsection \<open>The product listing\<close>














subsection \<open>Adding to the cart\<close>

text \<open>
  What \<open>add_to_cart\<close> compares with the stock is the requested quantity alone, whether
  or not the cart already holds the product.
\<close>

lemma add_to_cart_stock_check:
  assumes "get_product d k = Some p" and "p_stock p = Some stock"
  shows "(snd (snd (add_to_cart f fresh d s k q)) = Inl InsufficientStock) = (stock < form_quantity q)"
proof (cases "stock < form_quantity q")
  case True
  with assms show ?thesis by (simp add: add_to_cart_def)
next
  case False
  obtain tok s1 where gs: "get_session_id fresh s = (tok, s1)"
    by (cases "get_session_id fresh s")
  have "b \<noteq> Inl InsufficientStock" if "try_commit f d x = (a, b)" for x a b
    using try_commit_cases [of f d x] that by auto
  with assms False gs show ?thesis
    by (auto simp: add_to_cart_def Let_def split: option.splits prod.splits)
qed

text \<open>
  C3. The specification asks that, when the cart already holds the product with
  quantity \<open>q0\<close>, adding \<open>q\<close> fails with \<open>InsufficientStock\<close> exactly when \<open>q0 + q\<close>
  exceeds the stock. The code does not: with 80 carrots in stock and 4 in the cart,
  adding 78 succeeds and leaves 82 in the cart.
\<close>

theorem add_to_cart_exceeds_stock:
  "map_option p_stock (get_product shop 3) = Some (Some 80) \<and>
   map_option ci_quantity (get_cart_item shop 3) = Some 4 \<and>
   map_option ci_session_id (get_cart_item shop 3) = cart_session bob \<and>
   snd (snd (add_to_cart NoFault ''f'' shop bob 3 (Some 78))) = Inr () \<and>
   map_option ci_quantity (get_cart_item (fst (add_to_cart NoFault ''f'' shop bob 3 (Some 78))) 3)
     = Some 82"
  by code_simp

subsection \<open>Cart items are not tied to the caller's session\<close>

lemma find_filter_out: "find (\<lambda>c. ci_id c = k) (filter (\<lambda>c. ci_id c \<noteq> k) rows) = None"
  by (simp add: find_None_iff)

text \<open>
  C10. \<open>update_cart_item\<close> and \<open>remove_from_cart\<close> never read the session: their
  outcome is the same for every session, and they succeed on an existing cart item
  (the quantity within stock, the commit going through) for a caller whose cart token
  is not the item's \<open>session_id\<close>.
\<close>

theorem cart_item_routes_ignore_session:
  "update_cart_item f d s k q = update_cart_item f d s' k q \<and>
   remove_from_cart f d s k = remove_from_cart f d s' k \<and>
   (\<forall>c p stock. get_cart_item d k = Some c \<and> get_product d (ci_product_id c) = Some p \<and>
        p_stock p = Some stock \<and> form_quantity q \<le> stock \<and> f \<noteq> FailAt 0 \<and>
        cart_session s \<noteq> Some (ci_session_id c) \<longrightarrow>
        snd (update_cart_item f d s k q) = Inr () \<and>
        map_option ci_quantity (get_cart_item (fst (update_cart_item f d s k q)) k)
          = Some (form_quantity q) \<and>
        snd (remove_from_cart f d s k) = Inr () \<and>
        get_cart_item (fst (remove_from_cart f d s k)) k = None)"
proof (intro conjI)
  show "update_cart_item f d s k q = update_cart_item f d s' k q"
    by (simp add: update_cart_item_def)
  show "remove_from_cart f d s k = remove_from_cart f d s' k"
    by (simp add: remove_from_cart_def)
  show "\<forall>c p stock. get_cart_item d k = Some c \<and> get_product d (ci_product_id c) = Some p \<and>
        p_stock p = Some stock \<and> form_quantity q \<le> stock \<and> f \<noteq> FailAt 0 \<and>
        cart_session s \<noteq> Some (ci_session_id c) \<longrightarrow>
        snd (update_cart_item f d s k q) = Inr () \<and>
        map_option ci_quantity (get_cart_item (fst (update_cart_item f d s k q)) k)
          = Some (form_quantity q) \<and>
        snd (remove_from_cart f d s k) = Inr () \<and>
        get_cart_item (fst (remove_from_cart f d s k)) k = None"
  proof (intro allI impI)
    fix c p stock
    assume h: "get_cart_item d k = Some c \<and> get_product d (ci_product_id c) = Some p \<and>
        p_stock p = Some stock \<and> form_quantity q \<le> stock \<and> f \<noteq> FailAt 0 \<and>
        cart_session s \<noteq> Some (ci_session_id c)"
    then have u: "update_cart_item f d s k q =
        (d\<lparr>cart_items := set_quantity k (form_quantity q) (cart_items d)\<rparr>, Inr ())"
      by (simp add: update_cart_item_def try_commit_ok)
    from h have r: "remove_from_cart f d s k =
        (d\<lparr>cart_items := filter (\<lambda>c. ci_id c \<noteq> k) (cart_items d)\<rparr>, Inr ())"
      by (simp add: remove_from_cart_def try_commit_ok)
    from h have "map_option ci_quantity (get_cart_item (fst (update_cart_item f d s k q)) k)
          = Some (form_quantity q)"
      unfolding u by (simp add: get_cart_item_def find_set_quantity)
    moreover have "get_cart_item (fst (remove_from_cart f d s k)) k = None"
      unfolding r by (simp add: get_cart_item_def find_filter_out)
    ultimately show "snd (update_cart_item f d s k q) = Inr () \<and>
        map_option ci_quantity (get_cart_item (fst (update_cart_item f d s k q)) k)
          = Some (form_quantity q) \<and>
        snd (remove_from_cart f d s k) = Inr () \<and>
        get_cart_item (fst (remove_from_cart f d s k)) k = None"
      using u r by simp
  qed
qed

theorem cart_item_routes_ignore_session_witness:
  "map_option ci_session_id (get_cart_item shop 3) = Some ''t2'' \<and>
   cart_session alice = Some ''t1'' \<and>
   snd (update_cart_item NoFault shop alice 3 (Some 7)) = Inr () \<and>
   map_option ci_quantity (get_cart_item (fst (update_cart_item NoFault shop alice 3 (Some 7))) 3)
     = Some 7 \<and>
   snd (remove_from_cart NoFault shop alice 3) = Inr () \<and>
   get_cart_item (fst (remove_from_cart NoFault shop alice 3)) 3 = None"
proof -
  define c where "c = \<lparr>ci_id = 3, ci_session_id = ''t2'', ci_product_id = 3, ci_quantity = 4\<rparr>"
  define p where "p = \<lparr>p_id = 3, p_name = ''Carrots'',
                 p_description = Some ''Organic carrots, sweet and crunchy'',
                 p_category = ''vegetable'', p_price = 499 / 100, p_stock = Some 80,
                 p_image_url = ''/static/images/carrot.jpg'', p_is_available = True\<rparr>"
  have h: "get_cart_item shop 3 = Some c \<and> get_product shop (ci_product_id c) = Some p \<and>
        p_stock p = Some 80 \<and> form_quantity (Some 7) \<le> 80 \<and> NoFault \<noteq> FailAt 0 \<and>
        cart_session alice \<noteq> Some (ci_session_id c)"
    unfolding c_def p_def by code_simp
  have t: "map_option ci_session_id (get_cart_item shop 3) = Some ''t2'' \<and>
           cart_session alice = Some ''t1'' \<and> form_quantity (Some 7) = 7"
    by code_simp
  from cart_item_routes_ignore_session [of NoFault shop alice 3 "Some 7" alice] h
  have "snd (update_cart_item NoFault shop alice 3 (Some 7)) = Inr () \<and>
        map_option ci_quantity (get_cart_item (fst (update_cart_item NoFault shop alice 3 (Some 7))) 3)
          = Some (form_quantity (Some 7)) \<and>
        snd (remove_from_cart NoFault shop alice 3) = Inr () \<and>
        get_cart_item (fst (remove_from_cart NoFault shop alice 3)) 3 = None"
    by blast
  with t show ?thesis by simp
qed

subsection \<open>Reading an order back\<close>

lemma admin_is_logged_in: "admin_required d s = Inr u \<Longrightarrow> login_required d s = Inr u"
  by (auto simp: admin_required_def login_required_def split: option.splits if_splits)

text \<open>
  C7. For an existing order and a logged-in user, \<open>order_confirmation\<close> answers
  \<open>Forbidden\<close> when the order's \<open>user_id\<close> is not the user's id, and shows the order
  when it is.
\<close>

theorem order_confirmation_owner_only:
  assumes "login_required d s = Inr u" and "get_order d k = Some r"
  shows "(o_user_id r \<noteq> u_id u \<longrightarrow> order_confirmation d s k = Inl Forbidden) \<and>
         (o_user_id r = u_id u \<longrightarrow> order_confirmation d s k = Inr r)"
  using assms by (simp add: order_confirmation_def)

theorem order_confirmation_owner_only_witness:
  "order_confirmation shop alice 1 = Inl Forbidden \<and>
   map_option o_user_id (get_order shop 1) = Some 3 \<and>
   map_sum id o_id (order_confirmation shop bob 1) = Inr 1"
proof -
  define r where "r = \<lparr>o_id = 1, o_user_id = 3, o_total_amount = 998 / 100, o_status = ''shipped'',
         o_shipping_address = ''9 Mill Lane'', o_notes = []\<rparr>"
  define a where "a = \<lparr>u_id = 1, u_username = ''alice'', u_email = ''alice@example.com'',
         u_is_admin = False\<rparr>"
  define b where "b = \<lparr>u_id = 3, u_username = ''bob'', u_email = ''bob@example.com'',
         u_is_admin = False\<rparr>"
  have la: "login_required shop alice = Inr a" unfolding a_def by code_simp
  have lb: "login_required shop bob = Inr b" unfolding b_def by code_simp
  have g: "get_order shop 1 = Some r" unfolding r_def by code_simp
  have n: "o_user_id r \<noteq> u_id a" "o_user_id r = u_id b" "o_id r = 1" "o_user_id r = 3"
    unfolding r_def a_def b_def by simp_all
  from order_confirmation_owner_only [OF la g] n
  have 1: "order_confirmation shop alice 1 = Inl Forbidden" by simp
  from order_confirmation_owner_only [OF lb g] n
  have 2: "order_confirmation shop bob 1 = Inr r" by simp
  from 1 2 g n show ?thesis by simp
qed

subsection \<open>Order status\<close>

lemma find_set_status:
  "find (\<lambda>r. o_id r = k) (map (\<lambda>x. if o_id x = k then x\<lparr>o_status := st\<rparr> else x) rows) =
     map_option (\<lambda>x. x\<lparr>o_status := st\<rparr>) (find (\<lambda>r. o_id r = k) rows)"
  by (induction rows) auto

lemma admin_update_order_status_orders:
  "orders (fst (admin_update_order_status f d s k ns)) = orders d \<or>
   (\<exists>st. st \<in> set [''pending'', ''processing'', ''shipped'', ''delivered'', ''cancelled''] \<and>
      orders (fst (admin_update_order_status f d s k ns)) =
        map (\<lambda>x. if o_id x = k then x\<lparr>o_status := st\<rparr> else x) (orders d))"
proof -
  have tc: "orders (fst (try_commit f d x)) = orders d \<or> orders (fst (try_commit f d x)) = orders x"
    for x using try_commit_cases [of f d x] by auto
  show ?thesis
  proof (cases ns)
    case None
    then show ?thesis
      by (simp add: admin_update_order_status_def split: sum.split option.split)
  next
    case (Some st)
    show ?thesis
    proof (cases "st \<in> set [''pending'', ''processing'', ''shipped'', ''delivered'', ''cancelled'']")
      case False
      with Some show ?thesis
        by (simp add: admin_update_order_status_def split: sum.split option.split)
    next
      case True
      define x where "x = d\<lparr>orders := map (\<lambda>x. if o_id x = k then x\<lparr>o_status := st\<rparr> else x)
                                                 (orders d)\<rparr>"
      have "fst (admin_update_order_status f d s k ns) = d \<or>
            fst (admin_update_order_status f d s k ns) = fst (try_commit f d x)"
        using Some True unfolding x_def
        by (simp add: admin_update_order_status_def split: sum.split option.split)
      with tc [of x] have "orders (fst (admin_update_order_status f d s k ns)) = orders d \<or>
            orders (fst (admin_update_order_status f d s k ns)) = orders x"
        by auto
      with True show ?thesis unfolding x_def by auto
    qed
  qed
qed

lemma place_order_orders:
  assumes "place_order f s cart uid a n = (s', Some oid)"
  shows "\<exists>r. o_status r = ''pending'' \<and> orders (committed s') = orders (working s) @ [r]"
  by (insert place_order_ok [OF assms], elim exE conjE, simp)

lemma checkout_orders:
  "orders (fst (checkout f fresh d s req)) = orders d \<or>
   (\<exists>r. o_status r = ''pending'' \<and> orders (fst (checkout f fresh d s req)) = orders d @ [r])"
proof -
  obtain d' s' out where c: "checkout f fresh d s req = (d', s', out)"
    by (cases "checkout f fresh d s req")
  show ?thesis
  proof (cases out)
    case (Inl e)
    with c have "d' = d" by (simp add: checkout_failure_keeps_db)
    with c show ?thesis by simp
  next
    case (Inr res)
    show ?thesis
    proof (cases res)
      case (CheckoutPage items tot)
      with c Inr have "d' = d"
        unfolding checkout_def Let_def
        by (auto split: sum.splits prod.splits if_splits checkout_request.splits option.splits)
      with c show ?thesis by simp
    next
      case (OrderPlaced oid)
      with c Inr have "checkout f fresh d s req = (d', s', Inr (OrderPlaced oid))" by simp
      from checkout_placed [OF this] obtain u :: user and a n w where
        po: "place_order f (open_session d) (cart_of d (fst (get_session_id fresh s))) (u_id u) a n
             = (w, Some oid)" and d': "d' = committed w"
        by blast
      from place_order_orders [OF po] obtain r where
        "o_status r = ''pending'' \<and> orders (committed w) = orders d @ [r]"
        by (auto simp: open_session_def)
      with c d' show ?thesis by auto
    qed
  qed
qed

text \<open>
  C8. For an admin and an existing order, \<open>admin_update_order_status\<close> rejects every
  status outside the five values (and an absent one) with \<open>ValidationError\<close>, leaving
  the tables unchanged, and stores each of the five when the commit goes through.
  The two handlers that write the orders table, this one and \<open>checkout\<close> (which stores
  \<open>pending\<close>), keep every stored status among the five.
\<close>

theorem admin_update_order_status_values:
  "(\<forall>cur r. admin_required d s = Inr cur \<and> get_order d k = Some r \<longrightarrow>
      (\<forall>st. st \<notin> set [''pending'', ''processing'', ''shipped'', ''delivered'', ''cancelled''] \<longrightarrow>
          admin_update_order_status f d s k (Some st) = (d, Inl ValidationError)) \<and>
      admin_update_order_status f d s k None = (d, Inl ValidationError) \<and>
      (\<forall>st. st \<in> set [''pending'', ''processing'', ''shipped'', ''delivered'', ''cancelled''] \<and>
            f \<noteq> FailAt 0 \<longrightarrow>
          snd (admin_update_order_status f d s k (Some st)) = Inr () \<and>
          map_option o_status (get_order (fst (admin_update_order_status f d s k (Some st))) k)
            = Some st)) \<and>
   (statuses_valid d \<longrightarrow>
      statuses_valid (fst (admin_update_order_status f d s k ns)) \<and>
      statuses_valid (fst (checkout f2 fresh d s2 req)))"
proof (rule conjI)
  show "\<forall>cur r. admin_required d s = Inr cur \<and> get_order d k = Some r \<longrightarrow>
      (\<forall>st. st \<notin> set [''pending'', ''processing'', ''shipped'', ''delivered'', ''cancelled''] \<longrightarrow>
          admin_update_order_status f d s k (Some st) = (d, Inl ValidationError)) \<and>
      admin_update_order_status f d s k None = (d, Inl ValidationError) \<and>
      (\<forall>st. st \<in> set [''pending'', ''processing'', ''shipped'', ''delivered'', ''cancelled''] \<and>
            f \<noteq> FailAt 0 \<longrightarrow>
          snd (admin_update_order_status f d s k (Some st)) = Inr () \<and>
          map_option o_status (get_order (fst (admin_update_order_status f d s k (Some st))) k)
            = Some st)"
  proof (intro allI impI)
    fix cur r
    assume h: "admin_required d s = Inr cur \<and> get_order d k = Some r"
    then have l: "login_required d s = Inr cur" by (simp add: admin_is_logged_in)
    have bad: "admin_update_order_status f d s k (Some st) = (d, Inl ValidationError)"
      if "st \<notin> set [''pending'', ''processing'', ''shipped'', ''delivered'', ''cancelled'']" for st
      using h l that by (simp add: admin_update_order_status_def)
    have none: "admin_update_order_status f d s k None = (d, Inl ValidationError)"
      using h l by (simp add: admin_update_order_status_def)
    have good: "snd (admin_update_order_status f d s k (Some st)) = Inr () \<and>
          map_option o_status (get_order (fst (admin_update_order_status f d s k (Some st))) k)
            = Some st"
      if "st \<in> set [''pending'', ''processing'', ''shipped'', ''delivered'', ''cancelled''] \<and>
            f \<noteq> FailAt 0" for st
    proof -
      from h l that have "admin_update_order_status f d s k (Some st) =
          (d\<lparr>orders := map (\<lambda>x. if o_id x = k then x\<lparr>o_status := st\<rparr> else x) (orders d)\<rparr>, Inr ())"
        by (simp add: admin_update_order_status_def try_commit_ok)
      moreover from h have "find (\<lambda>r. o_id r = k) (orders d) = Some r"
        by (simp add: get_order_def)
      ultimately show ?thesis by (simp add: get_order_def find_set_status)
    qed
    from bad none good
    show "(\<forall>st. st \<notin> set [''pending'', ''processing'', ''shipped'', ''delivered'', ''cancelled''] \<longrightarrow>
          admin_update_order_status f d s k (Some st) = (d, Inl ValidationError)) \<and>
      admin_update_order_status f d s k None = (d, Inl ValidationError) \<and>
      (\<forall>st. st \<in> set [''pending'', ''processing'', ''shipped'', ''delivered'', ''cancelled''] \<and>
            f \<noteq> FailAt 0 \<longrightarrow>
          snd (admin_update_order_status f d s k (Some st)) = Inr () \<and>
          map_option o_status (get_order (fst (admin_update_order_status f d s k (Some st))) k)
            = Some st)"
      by blast
  qed
next
  show "statuses_valid d \<longrightarrow>
      statuses_valid (fst (admin_update_order_status f d s k ns)) \<and>
      statuses_valid (fst (checkout f2 fresh d s2 req))"
  proof
    assume v: "statuses_valid d"
    have 1: "statuses_valid (fst (admin_update_order_status f d s k ns))"
      using admin_update_order_status_orders [of f d s k ns] v
      unfolding statuses_valid_def by (auto simp: list_all_iff)
    have 2: "statuses_valid (fst (checkout f2 fresh d s2 req))"
      using checkout_orders [of f2 fresh d s2 req] v
      unfolding statuses_valid_def by (auto simp: list_all_iff)
    from 1 2 show "statuses_valid (fst (admin_update_order_status f d s k ns)) \<and>
      statuses_valid (fst (checkout f2 fresh d s2 req))" by simp
  qed
qed

theorem admin_update_order_status_values_witness:
  "admin_update_order_status NoFault shop admin 1 (Some ''lost'') = (shop, Inl ValidationError) \<and>
   snd (admin_update_order_status NoFault shop admin 1 (Some ''delivered'')) = Inr () \<and>
   map_option o_status
     (get_order (fst (admin_update_order_status NoFault shop admin 1 (Some ''delivered''))) 1)
     = Some ''delivered'' \<and>
   statuses_valid shop \<and>
   statuses_valid (fst (admin_update_order_status NoFault shop admin 1 (Some ''delivered''))) \<and>
   statuses_valid (fst (checkout NoFault ''f'' shop alice (Post (Some ''123 Main St'') None)))"
proof -
  define a where "a = \<lparr>u_id = 2, u_username = ''root'', u_email = ''root@example.com'',
         u_is_admin = True\<rparr>"
  define r where "r = \<lparr>o_id = 1, o_user_id = 3, o_total_amount = 998 / 100, o_status = ''shipped'',
         o_shipping_address = ''9 Mill Lane'', o_notes = []\<rparr>"
  have h: "admin_required shop admin = Inr a \<and> get_order shop 1 = Some r"
    unfolding a_def r_def by code_simp
  have v: "statuses_valid shop" by code_simp
  have bad: "''lost'' \<notin> set [''pending'', ''processing'', ''shipped'', ''delivered'', ''cancelled'']"
    by simp
  have good: "''delivered'' \<in> set [''pending'', ''processing'', ''shipped'', ''delivered'',
                 ''cancelled''] \<and> NoFault \<noteq> FailAt 0"
    by simp
  note inst = admin_update_order_status_values
    [where d = shop and s = admin and k = 1 and f = NoFault and ns = "Some ''delivered''"
       and ?f2.0 = NoFault and fresh = "''f''" and ?s2.0 = alice
       and req = "Post (Some ''123 Main St'') None"]
  from inst h bad
  have 1: "admin_update_order_status NoFault shop admin 1 (Some ''lost'') = (shop, Inl ValidationError)"
    by blast
  from inst h good
  have 2: "snd (admin_update_order_status NoFault shop admin 1 (Some ''delivered'')) = Inr () \<and>
     map_option o_status
       (get_order (fst (admin_update_order_status NoFault shop admin 1 (Some ''delivered''))) 1)
       = Some ''delivered''"
    by blast
  from inst v
  have 3: "statuses_valid (fst (admin_update_order_status NoFault shop admin 1 (Some ''delivered''))) \<and>
     statuses_valid (fst (checkout NoFault ''f'' shop alice (Post (Some ''123 Main St'') None)))"
    by blast
  from 1 2 3 v show ?thesis by simp
qed

subsection \<open>User roles\<close>

lemma find_toggle:
  "find (\<lambda>u. u_id u = j) (map (\<lambda>x. if u_id x = k then x\<lparr>u_is_admin := b\<rparr> else x) rows) =
     map_option (\<lambda>x. if u_id x = k then x\<lparr>u_is_admin := b\<rparr> else x) (find (\<lambda>u. u_id u = j) rows)"
  by (induction rows) auto

text \<open>
  C9. For an acting admin, \<open>admin_toggle_admin\<close> on the admin's own id answers
  \<open>SelfDemotionForbidden\<close> and changes nothing; on another, existing user, with the
  commit going through, that user's \<open>is_admin\<close> becomes the negation of what it was,
  and every other user row is as before.
\<close>

theorem admin_toggle_admin_contract:
  assumes "admin_required d s = Inr cur"
  shows "(target = u_id cur \<longrightarrow> admin_toggle_admin f d s target = (d, Inl SelfDemotionForbidden)) \<and>
    (\<forall>u. target \<noteq> u_id cur \<and> get_user d target = Some u \<and> f \<noteq> FailAt 0 \<longrightarrow>
        snd (admin_toggle_admin f d s target) = Inr () \<and>
        map_option u_is_admin (get_user (fst (admin_toggle_admin f d s target)) target)
          = Some (\<not> u_is_admin u) \<and>
        (\<forall>j. j \<noteq> target \<longrightarrow> get_user (fst (admin_toggle_admin f d s target)) j = get_user d j))"
proof (rule conjI)
  from assms have l: "login_required d s = Inr cur" by (rule admin_is_logged_in)
  show "target = u_id cur \<longrightarrow> admin_toggle_admin f d s target = (d, Inl SelfDemotionForbidden)"
    using assms l by (simp add: admin_toggle_admin_def)
  show "\<forall>u. target \<noteq> u_id cur \<and> get_user d target = Some u \<and> f \<noteq> FailAt 0 \<longrightarrow>
        snd (admin_toggle_admin f d s target) = Inr () \<and>
        map_option u_is_admin (get_user (fst (admin_toggle_admin f d s target)) target)
          = Some (\<not> u_is_admin u) \<and>
        (\<forall>j. j \<noteq> target \<longrightarrow> get_user (fst (admin_toggle_admin f d s target)) j = get_user d j)"
  proof (intro allI impI)
    fix u
    assume h: "target \<noteq> u_id cur \<and> get_user d target = Some u \<and> f \<noteq> FailAt 0"
    with assms l have t: "admin_toggle_admin f d s target =
        (d\<lparr>users := map (\<lambda>x. if u_id x = target then x\<lparr>u_is_admin := \<not> u_is_admin u\<rparr> else x)
                        (users d)\<rparr>, Inr ())"
      by (simp add: admin_toggle_admin_def try_commit_ok)
    from h have f: "find (\<lambda>x. u_id x = target) (users d) = Some u" by (simp add: get_user_def)
    then have uid: "u_id u = target" by (auto simp: find_Some_iff)
    have a: "map_option u_is_admin (get_user (fst (admin_toggle_admin f d s target)) target)
          = Some (\<not> u_is_admin u)"
      unfolding t using f uid by (simp add: get_user_def find_toggle)
    have b: "get_user (fst (admin_toggle_admin f d s target)) j = get_user d j" if "j \<noteq> target" for j
    proof (cases "find (\<lambda>x. u_id x = j) (users d)")
      case None
      then show ?thesis unfolding t by (simp add: get_user_def find_toggle)
    next
      case (Some x)
      then have "u_id x = j" by (auto simp: find_Some_iff)
      with that Some show ?thesis unfolding t by (simp add: get_user_def find_toggle)
    qed
    from t a b show "snd (admin_toggle_admin f d s target) = Inr () \<and>
        map_option u_is_admin (get_user (fst (admin_toggle_admin f d s target)) target)
          = Some (\<not> u_is_admin u) \<and>
        (\<forall>j. j \<noteq> target \<longrightarrow> get_user (fst (admin_toggle_admin f d s target)) j = get_user d j)"
      by simp
  qed
qed

theorem admin_toggle_admin_contract_witness:
  "admin_toggle_admin NoFault shop admin 2 = (shop, Inl SelfDemotionForbidden) \<and>
   snd (admin_toggle_admin NoFault shop admin 1) = Inr () \<and>
   map_option u_is_admin (get_user shop 1) = Some False \<and>
   map_option u_is_admin (get_user (fst (admin_toggle_admin NoFault shop admin 1)) 1) = Some True \<and>
   get_user (fst (admin_toggle_admin NoFault shop admin 1)) 3 = get_user shop 3"
proof -
  define a where "a = \<lparr>u_id = 2, u_username = ''root'', u_email = ''root@example.com'',
         u_is_admin = True\<rparr>"
  define u where "u = \<lparr>u_id = 1, u_username = ''alice'', u_email = ''alice@example.com'',
         u_is_admin = False\<rparr>"
  have adm: "admin_required shop admin = Inr a" unfolding a_def by code_simp
  have self: "2 = u_id a" by (simp add: a_def)
  have other: "1 \<noteq> u_id a \<and> get_user shop 1 = Some u \<and> NoFault \<noteq> FailAt 0"
    unfolding a_def u_def by code_simp
  have before: "map_option u_is_admin (get_user shop 1) = Some False" by code_simp
  have flag: "u_is_admin u = False" by (simp add: u_def)
  from admin_toggle_admin_contract [OF adm, of 2 NoFault] self
  have 1: "admin_toggle_admin NoFault shop admin 2 = (shop, Inl SelfDemotionForbidden)" by blast
  from admin_toggle_admin_contract [OF adm, of 1 NoFault] other
  have "snd (admin_toggle_admin NoFault shop admin 1) = Inr () \<and>
        map_option u_is_admin (get_user (fst (admin_toggle_admin NoFault shop admin 1)) 1)
          = Some (\<not> u_is_admin u) \<and>
        (\<forall>j. j \<noteq> 1 \<longrightarrow> get_user (fst (admin_toggle_admin NoFault shop admin 1)) j = get_user shop j)"
    by blast
  with flag have 2: "snd (admin_toggle_admin NoFault shop admin 1) = Inr () \<and>
        map_option u_is_admin (get_user (fst (admin_toggle_admin NoFault shop admin 1)) 1) = Some True \<and>
        get_user (fst (admin_toggle_admin NoFault shop admin 1)) 3 = get_user shop 3"
    by simp
  from 1 2 before show ?thesis by simp
qed

subsection \<open>The price of an order item is a snapshot\<close>

lemma admin_edit_product_keeps_orders:
  "orders (fst (admin_edit_product f d s k req)) = orders d \<and>
   order_items (fst (admin_edit_product f d s k req)) = order_items d"
proof -
  have tc: "orders (fst (try_commit f d (d\<lparr>products := x\<rparr>))) = orders d \<and>
            order_items (fst (try_commit f d (d\<lparr>products := x\<rparr>))) = order_items d"
    for x using try_commit_cases [of f d "d\<lparr>products := x\<rparr>"] by auto
  show ?thesis
    by (simp add: admin_edit_product_def Let_def tc
        split: sum.split option.split edit_request.split prod.split)
qed

text \<open>
  C4. Whatever run of product edits follows, each one able to change a product's
  price, the stored order items, and so their prices, and the stored orders are what
  they were; so are the items and the computed total of every order.
\<close>

theorem order_item_price_frozen:
  "order_items (edit_products d es) = order_items d \<and>
   map oi_price (order_items (edit_products d es)) = map oi_price (order_items d) \<and>
   orders (edit_products d es) = orders d \<and>
   (\<forall>r. o_items (edit_products d es) r = o_items d r \<and>
        calculate_total (edit_products d es) r = calculate_total d r)"
proof -
  have "order_items (edit_products d es) = order_items d \<and> orders (edit_products d es) = orders d"
  proof (induction es arbitrary: d)
    case Nil
    show ?case by simp
  next
    case (Cons e es)
    obtain f s k req where e: "e = (f, s, k, req)" by (cases e)
    show ?case
      using Cons.IH [of "fst (admin_edit_product f d s k req)"]
        admin_edit_product_keeps_orders [of f d s k req]
      by (simp add: e)
  qed
  then show ?thesis by (simp add: o_items_def calculate_total_def)
qed

theorem order_item_price_frozen_witness:
  "map p_price (products shop) = [599 / 100, 399 / 100, 499 / 100] \<and>
   map p_price (products (edit_products shop [(NoFault, admin, 3, EditPost carrots_dearer None)]))
     = [599 / 100, 399 / 100, 999 / 100] \<and>
   map oi_product_id (order_items shop) = [3] \<and>
   map oi_price (order_items shop) = [499 / 100] \<and>
   map oi_price (order_items (edit_products shop [(NoFault, admin, 3, EditPost carrots_dearer None)]))
     = [499 / 100]"
proof -
  have a: "map p_price (products shop) = [599 / 100, 399 / 100, 499 / 100]" by code_simp
  have b: "map p_price (products (edit_products shop
              [(NoFault, admin, 3, EditPost carrots_dearer None)]))
           = [599 / 100, 399 / 100, 999 / 100]"
    by code_simp
  have c: "map oi_product_id (order_items shop) = [3]" by code_simp
  have d: "map oi_price (order_items shop) = [499 / 100]" by code_simp
  from order_item_price_frozen [of shop "[(NoFault, admin, 3, EditPost carrots_dearer None)]"] d
  have "map oi_price (order_items (edit_products shop
              [(NoFault, admin, 3, EditPost carrots_dearer None)])) = [499 / 100]"
    by simp
  with a b c d show ?thesis by simp
qed

end
